theory Spec2Isabelle
  imports Complex_Main
begin

section \<open>Values of the trajectory engine\<close>

text \<open>
  The engine (\<^verbatim>\<open>obsnerds/trajectory_engine.py\<close>) computes with Python and numpy
  numbers. A float is a rational number or one of the three non-finite values of IEEE
  arithmetic, which are kept apart because \<^verbatim>\<open>Track.rates\<close> divides by a time
  difference that may be zero. The plain operations below do not round; the ranges, the
  interpolation and the sweep use the rounded operations of the section on double
  precision. Signed zeros, overflow to infinity and subnormal numbers are outside the
  model.
\<close>

datatype error = AttributeError | IndexError | TypeError | ValueError | ZeroDivisionError

datatype fl = Fin rat | PInf | NInf | NaN

fun is_finite :: "fl \<Rightarrow> bool" where
  "is_finite (Fin _) = True"
| "is_finite _ = False"

fun fl_neg :: "fl \<Rightarrow> fl" where
  "fl_neg (Fin a) = Fin (- a)"
| "fl_neg PInf = NInf"
| "fl_neg NInf = PInf"
| "fl_neg NaN = NaN"

fun fl_add :: "fl \<Rightarrow> fl \<Rightarrow> fl" where
  "fl_add (Fin a) (Fin b) = Fin (a + b)"
| "fl_add NaN _ = NaN"
| "fl_add _ NaN = NaN"
| "fl_add PInf NInf = NaN"
| "fl_add NInf PInf = NaN"
| "fl_add PInf _ = PInf"
| "fl_add _ PInf = PInf"
| "fl_add NInf _ = NInf"
| "fl_add _ NInf = NInf"

definition fl_sub :: "fl \<Rightarrow> fl \<Rightarrow> fl" where
  "fl_sub x y = fl_add x (fl_neg y)"

fun fl_sgn_inf :: "rat \<Rightarrow> fl" where
  "fl_sgn_inf s = (if s = 0 then NaN else if 0 < s then PInf else NInf)"

fun fl_mul :: "fl \<Rightarrow> fl \<Rightarrow> fl" where
  "fl_mul (Fin a) (Fin b) = Fin (a * b)"
| "fl_mul NaN _ = NaN"
| "fl_mul _ NaN = NaN"
| "fl_mul (Fin a) PInf = fl_sgn_inf a"
| "fl_mul (Fin a) NInf = fl_sgn_inf (- a)"
| "fl_mul PInf (Fin b) = fl_sgn_inf b"
| "fl_mul NInf (Fin b) = fl_sgn_inf (- b)"
| "fl_mul PInf PInf = PInf"
| "fl_mul NInf NInf = PInf"
| "fl_mul PInf NInf = NInf"
| "fl_mul NInf PInf = NInf"

text \<open>
  numpy's true division of float arrays: a finite non-zero value over zero is an
  infinity of the numerator's sign, zero over zero is NaN, and neither raises (numpy
  only emits a warning). The zero divisors that arise are positive zeros.
\<close>

fun fl_div :: "fl \<Rightarrow> fl \<Rightarrow> fl" where
  "fl_div (Fin a) (Fin b) = (if b = 0 then fl_sgn_inf a else Fin (a / b))"
| "fl_div NaN _ = NaN"
| "fl_div _ NaN = NaN"
| "fl_div (Fin a) _ = Fin 0"
| "fl_div PInf (Fin b) = (if 0 \<le> b then PInf else NInf)"
| "fl_div NInf (Fin b) = (if 0 \<le> b then NInf else PInf)"
| "fl_div _ _ = NaN"

text \<open>The comparison \<^verbatim>\<open>x > y\<close> of two floats; every comparison with NaN is false.\<close>

fun fl_gt :: "fl \<Rightarrow> fl \<Rightarrow> bool" where
  "fl_gt (Fin a) (Fin b) = (b < a)"
| "fl_gt NaN _ = False"
| "fl_gt _ NaN = False"
| "fl_gt PInf PInf = False"
| "fl_gt PInf _ = True"
| "fl_gt _ PInf = False"
| "fl_gt NInf _ = False"
| "fl_gt _ NInf = True"

text \<open>
  The elements a Track sequence holds: integer nanosecond timestamps, floats, astropy
  \<^verbatim>\<open>Time\<close> instants (modelled as rational seconds on the \<^verbatim>\<open>unix_tai\<close> scale) and,
  for the \<^verbatim>\<open>parameters\<close> attribute, strings. An attribute value is a Python list or
  a numpy array; only the former has \<^verbatim>\<open>append\<close>.
\<close>

datatype pyval = PInt int | PFloat fl | PTime rat | PStr string

datatype pyobj = PyList "pyval list" | NdArray "pyval list"

fun elems :: "pyobj \<Rightarrow> pyval list" where
  "elems (PyList xs) = xs"
| "elems (NdArray xs) = xs"

section \<open>Track\<close>

text \<open>
  A Track object is its \<^verbatim>\<open>name\<close> and its dynamically set data attributes, a
  dictionary from attribute names to values. The attribute \<^verbatim>\<open>parameters\<close> is itself
  one of them. Text printed to the console is returned as a list of lines.
\<close>

record track =
  name :: string
  attrs :: "string \<rightharpoonup> pyobj"

definition parameters :: "string list" where
  "parameters = [''timestamp'', ''obstime'', ''az'', ''el'', ''ra'', ''dec'', ''l'', ''b'', ''ir'']"

text \<open>
  \<^verbatim>\<open>Track.__init__(self, name, **kwargs)\<close>. The keyword arguments are the list of
  (key, value) pairs in call order. Python binds the keywords \<^verbatim>\<open>name\<close> and
  \<^verbatim>\<open>self\<close> to the positional parameters before the body runs, so they never
  reach \<^verbatim>\<open>kwargs\<close>.
\<close>

fun init_kwargs :: "(string \<rightharpoonup> pyobj) \<times> string list \<Rightarrow> (string \<times> pyobj) list
    \<Rightarrow> (string \<rightharpoonup> pyobj) \<times> string list" where
  "init_kwargs (a, out) [] = (a, out)"
| "init_kwargs (a, out) ((key, val) # kw) =
     (if key \<notin> set parameters
      then init_kwargs (a, out @ [key @ '' not allowed parameter'']) kw
      else init_kwargs (a(key \<mapsto> val), out) kw)"

definition init_params :: "(string \<rightharpoonup> pyobj) \<Rightarrow> (string \<rightharpoonup> pyobj)" where
  "init_params a = foldl (\<lambda>m param. m(param \<mapsto> PyList [])) a parameters"

definition Track_init :: "string \<Rightarrow> (string \<times> pyobj) list \<Rightarrow> track \<times> string list" where
  "Track_init nm kwargs =
     (let a0 = [''parameters'' \<mapsto> PyList (map PStr parameters)];
          a1 = init_params a0;
          (a2, out) = init_kwargs (a1, []) kwargs
      in (\<lparr>name = nm, attrs = a2\<rparr>, out))"

text \<open>
  \<^verbatim>\<open>Track.add(self, **kwargs)\<close>: \<^verbatim>\<open>getattr(self, key).append(value)\<close> for each
  keyword in order. \<^verbatim>\<open>getattr\<close> raises AttributeError for a missing attribute, and
  so does \<^verbatim>\<open>.append\<close> on anything that is not a list (a numpy array, the name, a
  method). The function contains no other check. An exception is returned without the
  partly updated object.
\<close>

fun add :: "track \<Rightarrow> (string \<times> pyval) list \<Rightarrow> error + track" where
  "add t [] = Inr t"
| "add t ((key, val) # kw) =
     (case attrs t key of
        Some (PyList xs) \<Rightarrow> add (t\<lparr>attrs := (attrs t)(key \<mapsto> PyList (xs @ [val]))\<rparr>) kw
      | _ \<Rightarrow> Inl AttributeError)"

text \<open>The lengths of the synchronised group: timestamp, obstime, az, el.\<close>

definition seq_len :: "track \<Rightarrow> string \<Rightarrow> nat" where
  "seq_len t key = (case attrs t key of Some v \<Rightarrow> length (elems v) | None \<Rightarrow> 0)"

definition sync_lengths :: "track \<Rightarrow> nat list" where
  "sync_lengths t = map (seq_len t) [''timestamp'', ''obstime'', ''az'', ''el'']"


section \<open>numpy and scipy operations used by the engine\<close>

text \<open>
  Conversion of sequence elements to numbers. The engine only ever stores integers in
  \<^verbatim>\<open>timestamp\<close> and floats in the coordinate fields; a numeric operation on a
  sequence that holds a \<^verbatim>\<open>Time\<close> instant or a string is reported as TypeError.
  Integers are unbounded (the 64-bit range of numpy's integer arrays is not modelled).
\<close>

fun as_float :: "pyval \<Rightarrow> error + fl" where
  "as_float (PInt i) = Inr (Fin (of_int i))"
| "as_float (PFloat x) = Inr x"
| "as_float _ = Inl TypeError"

text \<open>Python's \<^verbatim>\<open>int(x)\<close> of a float truncates towards zero.\<close>

definition py_int :: "rat \<Rightarrow> int" where
  "py_int x = (if 0 \<le> x then \<lfloor>x\<rfloor> else \<lceil>x\<rceil>)"

fun as_int :: "pyval \<Rightarrow> error + int" where
  "as_int (PInt i) = Inr i"
| "as_int (PFloat (Fin q)) = Inr (py_int q)"
| "as_int (PFloat _) = Inl ValueError"
| "as_int _ = Inl TypeError"

fun as_finite :: "pyval \<Rightarrow> error + rat" where
  "as_finite (PInt i) = Inr (of_int i)"
| "as_finite (PFloat (Fin q)) = Inr q"
| "as_finite (PFloat _) = Inl ValueError"
| "as_finite _ = Inl TypeError"

text \<open>Converting a whole sequence stops at the first element that fails.\<close>

fun map_err :: "('a \<Rightarrow> error + 'b) \<Rightarrow> 'a list \<Rightarrow> error + 'b list" where
  "map_err f [] = Inr []"
| "map_err f (x # xs) =
     (case f x of
        Inl e \<Rightarrow> Inl e
      | Inr y \<Rightarrow> (case map_err f xs of Inl e \<Rightarrow> Inl e | Inr ys \<Rightarrow> Inr (y # ys)))"

text \<open>\<^verbatim>\<open>getattr(self, key)\<close> on a Track.\<close>

definition get_attr :: "track \<Rightarrow> string \<Rightarrow> error + pyobj" where
  "get_attr t key = (case attrs t key of None \<Rightarrow> Inl AttributeError | Some v \<Rightarrow> Inr v)"

definition get_floats :: "track \<Rightarrow> string \<Rightarrow> error + fl list" where
  "get_floats t key =
     (case get_attr t key of Inl e \<Rightarrow> Inl e | Inr v \<Rightarrow> map_err as_float (elems v))"

text \<open>\<^verbatim>\<open>np.diff\<close> of a one-dimensional array: \<^verbatim>\<open>a[1:] - a[:-1]\<close>.\<close>

fun np_diff :: "fl list \<Rightarrow> fl list" where
  "np_diff (x # y # zs) = fl_sub y x # np_diff (y # zs)"
| "np_diff _ = []"

text \<open>
  Element-wise division of two one-dimensional arrays with numpy's broadcasting: the
  shapes must agree unless one of the arrays has exactly one element.
\<close>

definition np_divide :: "fl list \<Rightarrow> fl list \<Rightarrow> error + fl list" where
  "np_divide xs ys =
     (if length xs = length ys then Inr (map (\<lambda>(x, y). fl_div x y) (zip xs ys))
      else if length xs = 1 then Inr (map (\<lambda>y. fl_div (hd xs) y) ys)
      else if length ys = 1 then Inr (map (\<lambda>x. fl_div x (hd ys)) xs)
      else Inl ValueError)"

section \<open>Track: rates\<close>

text \<open>
  \<^verbatim>\<open>Track.rates\<close>: \<^verbatim>\<open>dt = np.diff(self.timestamp) / 1E9\<close>, then
  \<^verbatim>\<open>self.dazdt = np.diff(self.az) / dt\<close> and the same for \<^verbatim>\<open>el\<close>.
\<close>

definition rates :: "track \<Rightarrow> error + track" where
  "rates t =
     (case get_floats t ''timestamp'' of
        Inl e \<Rightarrow> Inl e
      | Inr ts \<Rightarrow>
         let dt = map (\<lambda>d. fl_div d (Fin (10 ^ 9))) (np_diff ts) in
         (case get_floats t ''az'' of
            Inl e \<Rightarrow> Inl e
          | Inr az \<Rightarrow>
             (case np_divide (np_diff az) dt of
                Inl e \<Rightarrow> Inl e
              | Inr dazdt \<Rightarrow>
                 (case get_floats t ''el'' of
                    Inl e \<Rightarrow> Inl e
                  | Inr el \<Rightarrow>
                     (case np_divide (np_diff el) dt of
                        Inl e \<Rightarrow> Inl e
                      | Inr deldt \<Rightarrow>
                         Inr (t\<lparr>attrs := (attrs t)
                                (''dazdt'' \<mapsto> NdArray (map PFloat dazdt),
                                 ''deldt'' \<mapsto> NdArray (map PFloat deldt))\<rparr>))))))"

section \<open>Double precision\<close>

text \<open>
  Where a count, a comparison or an interpolated value depends on it, a float operation
  is modelled with its rounding. \<open>rnd\<close> rounds a rational number to the nearest
  binary64 number, ties to the even significand: \<open>expo x\<close> is the exponent \<open>e\<close> with
  \<open>2\<^sup>e \<le> x < 2\<^sup>e\<^sup>+\<^sup>1\<close>, found from the bit lengths of numerator and denominator, and
  the significand has 53 bits. The exponent range is unbounded: overflow to infinity
  and subnormal numbers are not modelled. The numbers the model is given (parsed
  fields, parameters, results of astropy) are taken to be binary64 numbers.
\<close>

function blen :: "int \<Rightarrow> int" where
  "blen n = (if n \<le> 0 then 0 else 1 + blen (n div 2))"
  by auto
termination
  by (relation "measure nat") auto

declare blen.simps [simp del]

definition expo :: "rat \<Rightarrow> int" where
  "expo x = (let d = blen (fst (quotient_of x)) - blen (snd (quotient_of x))
             in if 2 powi d \<le> x then d else d - 1)"

definition round_even :: "rat \<Rightarrow> int" where
  "round_even m = (let f = \<lfloor>m\<rfloor>; r = m - of_int f
                   in if r < 1 / 2 then f else if 1 / 2 < r then f + 1
                      else if even f then f else f + 1)"

definition rnd :: "rat \<Rightarrow> rat" where
  "rnd x = (if x = 0 then 0
            else let u = 2 powi (expo \<bar>x\<bar> - 52)
                 in sgn x * of_int (round_even (\<bar>x\<bar> / u)) * u)"

fun fl_round :: "fl \<Rightarrow> fl" where
  "fl_round (Fin a) = Fin (rnd a)"
| "fl_round x = x"

definition d_add :: "fl \<Rightarrow> fl \<Rightarrow> fl" where
  "d_add x y = fl_round (fl_add x y)"

definition d_sub :: "fl \<Rightarrow> fl \<Rightarrow> fl" where
  "d_sub x y = fl_round (fl_sub x y)"

definition d_mul :: "fl \<Rightarrow> fl \<Rightarrow> fl" where
  "d_mul x y = fl_round (fl_mul x y)"

definition d_div :: "fl \<Rightarrow> fl \<Rightarrow> fl" where
  "d_div x y = fl_round (fl_div x y)"

text \<open>The comparison \<^verbatim>\<open>x == y\<close> of two floats: NaN equals nothing.\<close>

definition fl_eq :: "fl \<Rightarrow> fl \<Rightarrow> bool" where
  "fl_eq x y \<longleftrightarrow> x = y \<and> x \<noteq> NaN"

section \<open>Ranges, index arrays and interpolation\<close>

text \<open>
  \<^verbatim>\<open>np.arange(start, stop, step)\<close> of Python floats. The length is the ceiling of
  the double \<^verbatim>\<open>(stop - start) / step\<close> (none when that is not positive; the division
  raises ZeroDivisionError for a zero step). The first two elements are \<open>start\<close> and
  \<open>start + step\<close>; numpy fills the others as \<open>start + i * delta\<close> with \<open>delta\<close> the
  difference of the first two.
\<close>

definition arange_elem :: "rat \<Rightarrow> rat \<Rightarrow> nat \<Rightarrow> rat" where
  "arange_elem start step i =
     (if i = 0 then start
      else if i = 1 then rnd (start + step)
      else rnd (start + rnd (of_nat i * rnd (rnd (start + step) - start))))"

definition np_arange :: "rat \<Rightarrow> rat \<Rightarrow> rat \<Rightarrow> error + rat list" where
  "np_arange start stop step =
     (if step = 0 then Inl ZeroDivisionError
      else Inr (map (arange_elem start step) [0..<nat \<lceil>rnd (rnd (stop - start) / step)\<rceil>]))"

text \<open>
  Indexing a numpy array with the index array of \<^verbatim>\<open>np.where\<close>: an index beyond the
  array raises IndexError.
\<close>

definition take_indices :: "'a list \<Rightarrow> nat list \<Rightarrow> error + 'a list" where
  "take_indices xs idx =
     (if \<forall>i \<in> set idx. i < length xs then Inr (map (\<lambda>i. xs ! i) idx) else Inl IndexError)"

definition np_where :: "bool list \<Rightarrow> nat list" where
  "np_where bs = filter (\<lambda>i. bs ! i) [0..<length bs]"

text \<open>
  \<^verbatim>\<open>np.interp(x, xp, fp)\<close> on doubles, \<open>xp\<close> ascending with at least one knot. Left
  of the first knot the value is \<open>fp[0]\<close>, right of the last \<open>fp[-1]\<close>. Otherwise,
  with \<open>j\<close> the last knot that is not right of \<open>x\<close>: the value is \<open>fp[j]\<close> when \<open>j\<close> is
  the last knot or \<open>x\<close> lies on knot \<open>j\<close>, and \<^verbatim>\<open>slope*(x - xp[j]) + fp[j]\<close>
  otherwise, every operation rounded; a NaN result is recomputed from knot \<open>j + 1\<close>, and
  is \<open>fp[j]\<close> if that is NaN too and the two knots have equal values.
\<close>

fun interp_at :: "(rat \<times> fl) list \<Rightarrow> rat \<Rightarrow> fl" where
  "interp_at [] x = NaN"
| "interp_at [(x0, y0)] x = y0"
| "interp_at ((x0, y0) # (x1, y1) # ks) x =
     (if x1 \<le> x then interp_at ((x1, y1) # ks) x
      else if x = x0 then y0
      else
        let slope = d_div (d_sub y1 y0) (Fin (rnd (x1 - x0)));
            r = d_add (d_mul slope (Fin (rnd (x - x0)))) y0;
            r' = d_add (d_mul slope (Fin (rnd (x - x1)))) y1
        in if r \<noteq> NaN then r else if r' = NaN \<and> fl_eq y0 y1 then y0 else r')"

definition np_interp :: "(rat \<times> fl) list \<Rightarrow> rat \<Rightarrow> fl" where
  "np_interp ks x =
     (if x < fst (hd ks) then snd (hd ks)
      else if fst (last ks) < x then snd (last ks)
      else interp_at ks x)"

text \<open>
  \<^verbatim>\<open>scipy.interpolate.interp1d(x, y, fill_value=0.0, bounds_error=False)\<close>, the
  default linear kind. The constructor needs as many x as y values and at least one
  knot, and sorts the knots by x with a stable sort; the result here is the sorted knot
  list. A call compares the point with the first and the last knot as they are (for
  integer timestamps, exactly) and gives the fill value outside; inside it evaluates
  \<^verbatim>\<open>np.interp\<close>, which first converts the knots' x and the point to doubles.
\<close>

definition interp1d :: "pyobj \<Rightarrow> pyobj \<Rightarrow> error + (rat \<times> fl) list" where
  "interp1d x y =
     (case map_err as_finite (elems x) of
        Inl e \<Rightarrow> Inl e
      | Inr xs \<Rightarrow>
         (case map_err as_float (elems y) of
            Inl e \<Rightarrow> Inl e
          | Inr ys \<Rightarrow>
             if length xs \<noteq> length ys \<or> xs = [] then Inl ValueError
             else Inr (sort_key fst (zip xs ys))))"

definition interp_call :: "(rat \<times> fl) list \<Rightarrow> fl \<Rightarrow> rat \<Rightarrow> fl" where
  "interp_call ks fill x =
     (if x < fst (hd ks) \<or> fst (last ks) < x then fill
      else np_interp (map (\<lambda>k. (rnd (fst k), snd k)) ks) (rnd x))"

section \<open>Track: the ephemeris file\<close>

text \<open>
  \<^verbatim>\<open>Track.ephem_file\<close>. The result is the updated track and the rows handed to
  \<^verbatim>\<open>np.savetxt\<close>, one (timestamp, az, el, ir) tuple per sample; the text formatting of
  the numbers and the console notices are not modelled. The branch under
  \<^verbatim>\<open>if True:\<close> always runs and replaces \<^verbatim>\<open>self.ir\<close> by
  \<^verbatim>\<open>np.zeros(len(tai)) + 1E-20\<close>. Four arrays of unequal length make a ragged object
  array, which \<^verbatim>\<open>np.savetxt\<close> rejects.
\<close>

definition sentinel :: rat where
  "sentinel = rnd (1 / 10 ^ 20)"

definition ephem_file :: "track \<Rightarrow> error + track \<times> (int \<times> fl \<times> fl \<times> fl) list" where
  "ephem_file t =
     (case get_attr t ''timestamp'' of
        Inl e \<Rightarrow> Inl e
      | Inr tsv \<Rightarrow>
     (case map_err as_int (elems tsv) of
        Inl e \<Rightarrow> Inl e
      | Inr tai \<Rightarrow>
     (case get_floats t ''az'' of
        Inl e \<Rightarrow> Inl e
      | Inr az \<Rightarrow>
     (case get_floats t ''el'' of
        Inl e \<Rightarrow> Inl e
      | Inr el \<Rightarrow>
         let ir = map (\<lambda>z. d_add z (Fin sentinel)) (replicate (length tai) (Fin 0));
             t' = t\<lparr>attrs := (attrs t)(''ir'' \<mapsto> NdArray (map PFloat ir))\<rparr>
         in if length az = length tai \<and> length el = length tai
            then Inr (t', zip tai (zip az (zip el ir)))
            else Inl ValueError))))"

section \<open>Trajectory\<close>

text \<open>
  A Trajectory object after its constructor has run; the constructor itself (lines 103
  to 110) is not modelled, and the generators are stated for any values of the
  attributes. A \<^verbatim>\<open>Time\<close> is a rational number of seconds, so comparing instants is
  exact. The attributes set only by a generator are optional. The namespace
  \<^verbatim>\<open>T0\<close>, which only the plots read, is left out. The generators' console notices are
  collected in \<open>console\<close>.
\<close>

record trajectory =
  valid :: bool
  tz :: rat
  start_time :: rat
  el_horizon :: rat
  time_to_track :: rat
  tstep :: rat
  track_Time :: "rat list"
  track_tsns :: "int list"
  trajectory_type :: "string option"
  gal_b :: "rat option"
  gal_rate :: "rat option"
  track :: "track option"
  input_track :: "track option"
  console :: "string list"

text \<open>
  What the engine asks of astropy is a parameter of the model: \<open>to_icrs l b\<close> is
  (ra, dec) of a galactic direction, \<open>to_altaz radec t\<close> is (az, alt) of an equatorial
  direction at instant \<open>t\<close> seen from the site, \<open>unix_tai t\<close> is the double
  \<^verbatim>\<open>t.unix_tai\<close>, and \<open>show_deg\<close> prints an angle for the track's name. astropy
  rejects a latitude outside \<open>[-90, 90]\<close> with ValueError.
\<close>

record astro =
  to_icrs :: "rat \<Rightarrow> rat \<Rightarrow> rat \<times> rat"
  to_altaz :: "rat \<times> rat \<Rightarrow> rat \<Rightarrow> rat \<times> rat"
  unix_tai :: "rat \<Rightarrow> rat"
  show_deg :: "rat \<Rightarrow> string"

subsection \<open>Galactic sweep\<close>

text \<open>
  Lines 136 to 138: the longitude of grid index \<open>i\<close>, with \<open>R\<close> the double
  \<^verbatim>\<open>rate * tstep\<close>: one subtraction of 360 when the sum is greater than 360.
\<close>

definition this_l :: "rat \<Rightarrow> rat \<Rightarrow> nat \<Rightarrow> rat" where
  "this_l starting_l R i =
     (let l0 = rnd (starting_l + rnd (of_nat i * R))
      in if 360 < l0 then rnd (l0 - 360) else l0)"

text \<open>The loop over the grid indices, lines 135 to 142.\<close>

fun sweep :: "astro \<Rightarrow> trajectory \<Rightarrow> rat \<Rightarrow> rat \<Rightarrow> rat \<Rightarrow> nat list \<Rightarrow> track \<Rightarrow> error + track" where
  "sweep A tr starting_l R lat [] trk = Inr trk"
| "sweep A tr starting_l R lat (i # rest) trk =
     (let l = this_l starting_l R i;
          radec = to_icrs A l lat;
          azel = to_altaz A radec (track_Time tr ! i)
      in case add trk [(''az'', PFloat (Fin (fst azel))), (''el'', PFloat (Fin (snd azel))),
                       (''ra'', PFloat (Fin (fst radec))), (''dec'', PFloat (Fin (snd radec))),
                       (''l'', PFloat (Fin l)), (''b'', PFloat (Fin lat))] of
           Inl e \<Rightarrow> Inl e
         | Inr trk' \<Rightarrow> sweep A tr starting_l R lat rest trk')"

definition grid_kwargs :: "trajectory \<Rightarrow> (string \<times> pyobj) list" where
  "grid_kwargs tr = [(''timestamp'', NdArray (map PInt (track_tsns tr))),
                     (''obstime'', NdArray (map PTime (track_Time tr)))]"

text \<open>
  \<^verbatim>\<open>Trajectory.galactic(b, rate)\<close>. The starting longitude is the first of the
  sampled longitudes \<^verbatim>\<open>np.arange(0.0, 359.9, 0.1)\<close> whose altitude at the start time is
  above the horizon; without one the trajectory is marked invalid before any track is
  made.
\<close>

definition galactic :: "astro \<Rightarrow> trajectory \<Rightarrow> rat \<Rightarrow> rat \<Rightarrow> error + trajectory" where
  "galactic A tr lat rate =
     (let tr1 = tr\<lparr>trajectory_type := Some ''galactic'', gal_b := Some lat,
                   gal_rate := Some rate\<rparr>
      in case np_arange 0 (rnd (3599 / 10)) (rnd (1 / 10)) of
           Inl e \<Rightarrow> Inl e
         | Inr gp_l \<Rightarrow>
            if lat < - 90 \<or> 90 < lat then Inl ValueError
            else
              let alt = map (\<lambda>l. snd (to_altaz A (to_icrs A l lat) (start_time tr))) gp_l;
                  above_horizon = np_where (map (\<lambda>a. el_horizon tr < a) alt)
              in if length above_horizon = 0
                 then Inr (tr1\<lparr>valid := False,
                              console := console tr1 @ [''Nothing above the supplied horizon'']\<rparr>)
                 else
                   let starting_l = gp_l ! hd above_horizon;
                       (trk, out) = Track_init (''Galactic b='' @ show_deg A lat) (grid_kwargs tr);
                       R = rnd (rate * tstep tr)
                   in case sweep A tr starting_l R lat [0..<length (track_Time tr)] trk of
                        Inl e \<Rightarrow> Inl e
                      | Inr trk' \<Rightarrow>
                         (case rates trk' of
                            Inl e \<Rightarrow> Inl e
                          | Inr trk'' \<Rightarrow>
                             Inr (tr1\<lparr>track := Some trk'', console := console tr1 @ out\<rparr>)))"

subsection \<open>Resampling a file\<close>

text \<open>
  The file is given as its parsed records (obstime, az, el, range), one per line; parsing
  the text is not modelled. The loop of lines 160 to 166: the overlap test reads
  \<^verbatim>\<open>track_Time[0]\<close> and \<^verbatim>\<open>track_Time[-1]\<close> only while no overlap has been seen,
  and both raise IndexError on an empty grid; \<^verbatim>\<open>1.0 / float(data[3])\<close> raises
  ZeroDivisionError for a zero range.
\<close>

type_synonym file_record = "rat \<times> rat \<times> rat \<times> rat"

fun read_records :: "astro \<Rightarrow> trajectory \<Rightarrow> file_record list \<Rightarrow> bool \<times> track
    \<Rightarrow> error + bool \<times> track" where
  "read_records A tr [] st = Inr st"
| "read_records A tr ((obstime, az, el, rng) # rest) (overlap, inp) =
     (if \<not> overlap \<and> track_Time tr = [] then Inl IndexError
      else
        let overlap' = (if \<not> overlap \<and> hd (track_Time tr) \<le> obstime
                            \<and> obstime \<le> last (track_Time tr) then True else overlap)
        in if rng = 0 then Inl ZeroDivisionError
           else case add inp [(''timestamp'', PInt (py_int (rnd (unix_tai A obstime * 10 ^ 9)))),
                              (''obstime'', PTime obstime),
                              (''az'', PFloat (Fin az)), (''el'', PFloat (Fin el)),
                              (''ir'', PFloat (Fin (rnd (1 / rng))))] of
                  Inl e \<Rightarrow> Inl e
                | Inr inp' \<Rightarrow> read_records A tr rest (overlap', inp'))"

text \<open>
  \<^verbatim>\<open>f = interp1d(input_track.timestamp, input_track.<key>, fill_value=0.0,
  bounds_error=False)\<close> followed by \<^verbatim>\<open>f(xnew)\<close>.
\<close>

definition interp_field :: "track \<Rightarrow> string \<Rightarrow> pyval list \<Rightarrow> error + fl list" where
  "interp_field inp key xnew =
     (case get_attr inp ''timestamp'' of
        Inl e \<Rightarrow> Inl e
      | Inr x \<Rightarrow>
     (case get_attr inp key of
        Inl e \<Rightarrow> Inl e
      | Inr y \<Rightarrow>
     (case interp1d x y of
        Inl e \<Rightarrow> Inl e
      | Inr ks \<Rightarrow>
     (case map_err as_finite xnew of
        Inl e \<Rightarrow> Inl e
      | Inr xs \<Rightarrow> Inr (map (interp_call ks (Fin 0)) xs)))))"

text \<open>Lines 174 to 184: the output track \<open>trk\<close> is resampled from the input track.\<close>

definition resample :: "track \<Rightarrow> track \<Rightarrow> error + track" where
  "resample trk inp =
     (case get_attr trk ''timestamp'' of
        Inl e \<Rightarrow> Inl e
      | Inr ts \<Rightarrow>
     (case interp_field inp ''el'' (elems ts) of
        Inl e \<Rightarrow> Inl e
      | Inr el' \<Rightarrow>
         let keep = np_where (map (\<lambda>e. fl_gt e (Fin 0)) el') in
     (case take_indices (elems ts) keep of
        Inl e \<Rightarrow> Inl e
      | Inr ts_kept \<Rightarrow>
     (case get_attr trk ''obstime'' of
        Inl e \<Rightarrow> Inl e
      | Inr ot \<Rightarrow>
     (case take_indices (elems ot) keep of
        Inl e \<Rightarrow> Inl e
      | Inr ot_kept \<Rightarrow>
     (case take_indices el' keep of
        Inl e \<Rightarrow> Inl e
      | Inr el_kept \<Rightarrow>
     (case interp_field inp ''az'' ts_kept of
        Inl e \<Rightarrow> Inl e
      | Inr az_kept \<Rightarrow>
     (case interp_field inp ''ir'' ts_kept of
        Inl e \<Rightarrow> Inl e
      | Inr ir_kept \<Rightarrow>
         rates (trk\<lparr>attrs := (attrs trk)
                  (''timestamp'' \<mapsto> NdArray ts_kept,
                   ''obstime'' \<mapsto> NdArray ot_kept,
                   ''el'' \<mapsto> NdArray (map PFloat el_kept),
                   ''az'' \<mapsto> NdArray (map PFloat az_kept),
                   ''ir'' \<mapsto> NdArray (map PFloat ir_kept))\<rparr>)))))))))"

text \<open>
  \<^verbatim>\<open>Trajectory.from_file\<close>. The output track is created and assigned to
  \<^verbatim>\<open>self.track\<close> before the file is read. \<^verbatim>\<open>Time(input_track.obstime)\<close> turns the
  list of instants into a \<^verbatim>\<open>Time\<close> array; what astropy does there with the empty list
  of an empty file depends on its version, the model lets it through, and the theorems
  below are about files with at least one record.
\<close>

definition from_file :: "astro \<Rightarrow> trajectory \<Rightarrow> string \<Rightarrow> file_record list \<Rightarrow> error + trajectory" where
  "from_file A tr filename recs =
     (let tr1 = tr\<lparr>trajectory_type := Some ''from_file''\<rparr>;
          (trk, out) = Track_init (''Output: '' @ filename) (grid_kwargs tr);
          (inp0, out0) = Track_init (''Input: '' @ filename) []
      in case read_records A tr recs (False, inp0) of
           Inl e \<Rightarrow> Inl e
         | Inr (overlap, inp1) \<Rightarrow>
            (case get_attr inp1 ''obstime'' of
               Inl e \<Rightarrow> Inl e
             | Inr ot \<Rightarrow>
                let inp = inp1\<lparr>attrs := (attrs inp1)(''obstime'' \<mapsto> NdArray (elems ot))\<rparr>;
                    tr2 = tr1\<lparr>input_track := Some inp, console := console tr1 @ out @ out0\<rparr>
                in if \<not> overlap
                   then Inr (tr2\<lparr>track := Some trk, valid := False,
                                console := console tr2
                                  @ [''This supplied file and desired track don't overlap'']\<rparr>)
                   else (case resample trk inp of
                           Inl e \<Rightarrow> Inl e
                         | Inr trk' \<Rightarrow> Inr (tr2\<lparr>track := Some trk'\<rparr>))))"

section \<open>Closed forms used in the proofs\<close>

text \<open>
  What \<^verbatim>\<open>add\<close> leaves in an attribute when every keyword names a list: the values
  given for that key, in call order, after the old elements.
\<close>

definition appended :: "track \<Rightarrow> (string \<times> pyval) list \<Rightarrow> string \<Rightarrow> pyobj option" where
  "appended t kw key =
     (case attrs t key of
        Some (PyList xs) \<Rightarrow> Some (PyList (xs @ map snd (filter (\<lambda>p. fst p = key) kw)))
      | other \<Rightarrow> other)"

text \<open>
  Entry \<open>i\<close> of a rate array in closed form, for sequences of equal length: the
  difference of consecutive values over the difference of the integer timestamps in
  seconds.
\<close>

definition rate_entry :: "fl list \<Rightarrow> int list \<Rightarrow> nat \<Rightarrow> fl" where
  "rate_entry xs ts i =
     fl_div (fl_sub (xs ! Suc i) (xs ! i)) (Fin (of_int (ts ! Suc i - ts ! i) / 10 ^ 9))"

section \<open>Track construction\<close>

lemma init_params_eq:
  "init_params a = (\<lambda>k. if k \<in> set parameters then Some (PyList []) else a k)"
  by (rule ext) (simp add: init_params_def parameters_def)

lemma init_kwargs_eq:
  "init_kwargs (a, out) kw =
     (a ++ map_of (rev (filter (\<lambda>p. fst p \<in> set parameters) kw)),
      out @ map (\<lambda>key. key @ '' not allowed parameter'')
              (filter (\<lambda>key. key \<notin> set parameters) (map fst kw)))"
proof (induction kw arbitrary: a out)
  case Nil
  then show ?case by simp
next
  case (Cons p kw)
  obtain key val where p: "p = (key, val)" by (cases p)
  show ?case
  proof (cases "key \<in> set parameters")
    case True
    have "a(key \<mapsto> val) ++ map_of (rev (filter (\<lambda>p. fst p \<in> set parameters) kw))
        = a ++ map_of (rev (filter (\<lambda>p. fst p \<in> set parameters) kw) @ [(key, val)])"
      by (rule ext) (simp add: map_add_def split: option.splits)
    with True show ?thesis by (simp add: p Cons.IH del: fun_upd_apply)
  next
    case False
    then show ?thesis by (simp add: p Cons.IH)
  qed
qed

lemma map_of_rev_filter:
  "P k \<Longrightarrow> map_of (rev (filter (\<lambda>p. P (fst p)) kw)) k = map_of (rev kw) k"
  by (induction kw) (auto simp: map_add_def split: option.splits)

lemma map_of_rev_filter_None:
  "k \<notin> fst ` set kw \<Longrightarrow> map_of (rev (filter (\<lambda>p. P (fst p)) kw)) k = None"
  by (induction kw) (auto simp: map_add_def split: option.splits)

lemma map_of_rev_filter_not:
  "\<not> P k \<Longrightarrow> map_of (rev (filter (\<lambda>p. P (fst p)) kw)) k = None"
  by (induction kw) (auto simp: map_add_def split: option.splits)

lemma Track_init_attrs:
  "attrs (fst (Track_init nm kwargs)) key =
     (if key \<in> set parameters
      then (if key \<in> fst ` set kwargs then map_of (rev kwargs) key else Some (PyList []))
      else if key = ''parameters'' then Some (PyList (map PStr parameters)) else None)"
proof -
  let ?m = "map_of (rev (filter (\<lambda>p. fst p \<in> set parameters) kwargs))"
  have a: "attrs (fst (Track_init nm kwargs)) key =
      (case ?m key of
         None \<Rightarrow> (if key \<in> set parameters then Some (PyList [])
                  else [''parameters'' \<mapsto> PyList (map PStr parameters)] key)
       | Some v \<Rightarrow> Some v)"
    by (simp add: Track_init_def init_kwargs_eq init_params_eq map_add_def)
  show ?thesis
  proof (cases "key \<in> set parameters")
    case True
    show ?thesis
    proof (cases "key \<in> fst ` set kwargs")
      case k: True
      then have "map_of (rev kwargs) key \<noteq> None"
        by (simp add: map_of_eq_None_iff)
      moreover have "?m key = map_of (rev kwargs) key"
        using True by (rule map_of_rev_filter)
      ultimately show ?thesis using True k by (auto simp: a)
    next
      case False
      then have "?m key = None" by (rule map_of_rev_filter_None)
      then show ?thesis using True False by (simp add: a)
    qed
  next
    case False
    then have "?m key = None" by (rule map_of_rev_filter_not)
    then show ?thesis using False by (simp add: a)
  qed
qed

lemma Track_init_out:
  "snd (Track_init nm kwargs) = map (\<lambda>key. key @ '' not allowed parameter'')
                 (filter (\<lambda>key. key \<notin> set parameters) (map fst kwargs))"
  by (simp add: Track_init_def init_kwargs_eq)

lemma Track_init_name: "name (fst (Track_init nm kwargs)) = nm"
  by (simp add: Track_init_def init_kwargs_eq)

text \<open>
  Claim C10. Constructing a Track from any keyword arguments: a keyword that is not one
  of the nine declared parameters only prints the notice
  \<^verbatim>\<open><key> not allowed parameter\<close> and leaves no attribute; a declared parameter that
  is not supplied holds the empty list, a supplied one the value given (the last one when
  a key is repeated); so the data attributes are exactly the nine parameters, next to the
  \<^verbatim>\<open>parameters\<close> list itself and the name.
\<close>

theorem Track_init_parameters:
  "name (fst (Track_init nm kwargs)) = nm \<and>
   dom (attrs (fst (Track_init nm kwargs))) = set parameters \<union> {''parameters''} \<and>
   (\<forall>key. key \<notin> set parameters \<longrightarrow>
      attrs (fst (Track_init nm kwargs)) key =
        (if key = ''parameters'' then Some (PyList (map PStr parameters)) else None)) \<and>
   (\<forall>p \<in> set parameters. p \<notin> fst ` set kwargs \<longrightarrow>
      attrs (fst (Track_init nm kwargs)) p = Some (PyList [])) \<and>
   (\<forall>p \<in> set parameters. p \<in> fst ` set kwargs \<longrightarrow>
      attrs (fst (Track_init nm kwargs)) p = map_of (rev kwargs) p) \<and>
   snd (Track_init nm kwargs) =
     map (\<lambda>key. key @ '' not allowed parameter'')
       (filter (\<lambda>key. key \<notin> set parameters) (map fst kwargs))"
proof -
  have "dom (attrs (fst (Track_init nm kwargs))) = set parameters \<union> {''parameters''}"
  proof (rule set_eqI)
    fix key
    have "key \<in> fst ` set kwargs \<Longrightarrow> map_of (rev kwargs) key \<noteq> None"
      by (simp add: map_of_eq_None_iff)
    then show "key \<in> dom (attrs (fst (Track_init nm kwargs)))
        \<longleftrightarrow> key \<in> set parameters \<union> {''parameters''}"
      by (auto simp: domIff Track_init_attrs)
  qed
  then show ?thesis
    by (simp add: Track_init_attrs Track_init_out Track_init_name)
qed

theorem Track_init_parameters_witness:
  "snd (Track_init ''t'' [(''az'', NdArray [PFloat (Fin 1)]), (''colour'', PyList [])])
     = [''colour not allowed parameter''] \<and>
   attrs (fst (Track_init ''t'' [(''az'', NdArray [PFloat (Fin 1)]), (''colour'', PyList [])])) ''colour'' = None \<and>
   attrs (fst (Track_init ''t'' [(''az'', NdArray [PFloat (Fin 1)]), (''colour'', PyList [])])) ''el'' = Some (PyList []) \<and>
   attrs (fst (Track_init ''t'' [(''az'', NdArray [PFloat (Fin 1)]), (''colour'', PyList [])])) ''az'' = Some (NdArray [PFloat (Fin 1)])"
  using Track_init_parameters [of "''t''" "[(''az'', NdArray [PFloat (Fin 1)]), (''colour'', PyList [])]"]
  by (simp add: parameters_def)

section \<open>Track.add\<close>

lemma add_all_lists:
  "\<forall>key \<in> fst ` set kw. \<exists>xs. attrs t key = Some (PyList xs) \<Longrightarrow>
   add t kw = Inr (t\<lparr>attrs := appended t kw\<rparr>)"
proof (induction kw arbitrary: t)
  case Nil
  have "appended t [] = attrs t"
    by (rule ext) (simp add: appended_def split: option.splits pyobj.splits)
  then show ?case by simp
next
  case (Cons p kw)
  obtain key val where p: "p = (key, val)" by (cases p)
  from Cons.prems obtain xs where xs: "attrs t key = Some (PyList xs)"
    by (auto simp: p)
  let ?t = "t\<lparr>attrs := (attrs t)(key \<mapsto> PyList (xs @ [val]))\<rparr>"
  have "\<forall>k \<in> fst ` set kw. \<exists>ys. attrs ?t k = Some (PyList ys)"
    using Cons.prems by (auto simp: p)
  then have "add ?t kw = Inr (?t\<lparr>attrs := appended ?t kw\<rparr>)"
    by (rule Cons.IH)
  moreover have "appended ?t kw = appended t (p # kw)"
    by (rule ext) (simp add: appended_def p xs split: option.splits pyobj.splits)
  ultimately show ?case by (simp add: p xs)
qed

lemma add_not_list:
  "\<not> (\<forall>key \<in> fst ` set kw. \<exists>xs. attrs t key = Some (PyList xs)) \<Longrightarrow>
   add t kw = Inl AttributeError"
proof (induction kw arbitrary: t)
  case Nil
  then show ?case by simp
next
  case (Cons p kw)
  obtain key val where p: "p = (key, val)" by (cases p)
  show ?case
  proof (cases "\<exists>xs. attrs t key = Some (PyList xs)")
    case True
    then obtain xs where xs: "attrs t key = Some (PyList xs)" by blast
    let ?t = "t\<lparr>attrs := (attrs t)(key \<mapsto> PyList (xs @ [val]))\<rparr>"
    have "\<not> (\<forall>k \<in> fst ` set kw. \<exists>ys. attrs ?t k = Some (PyList ys))"
      using Cons.prems xs by (auto simp: p split: if_splits)
    then have "add ?t kw = Inl AttributeError" by (rule Cons.IH)
    then show ?thesis by (simp add: p xs)
  next
    case False
    then show ?thesis by (auto simp: p split: option.splits pyobj.splits)
  qed
qed

text \<open>
  Claim C2, as amended. \<^verbatim>\<open>Track.add\<close> compares no lengths: when every keyword names
  a list-valued attribute the call succeeds and each named list grows by the values
  given for it, whatever that does to the lengths of timestamp, obstime, az and el;
  otherwise the call raises AttributeError. There is no usage error for
  unsynchronised lengths.
\<close>

theorem add_appends_unchecked:
  "if \<forall>key \<in> fst ` set kw. \<exists>xs. attrs t key = Some (PyList xs)
   then add t kw = Inr (t\<lparr>attrs := appended t kw\<rparr>)
   else add t kw = Inl AttributeError"
  using add_all_lists [of kw t] add_not_list [of kw t] by simp

theorem add_appends_unchecked_witness:
  "map_sum id sync_lengths
     (add (fst (Track_init ''t'' [])) [(''az'', PFloat (Fin 1)), (''el'', PFloat (Fin 2))])
   = Inr [0, 0, 1, 1] \<and>
   add (fst (Track_init ''t'' [(''az'', NdArray [])])) [(''az'', PFloat (Fin 1))]
   = Inl AttributeError"
  using add_appends_unchecked [of "[(''az'', PFloat (Fin 1)), (''el'', PFloat (Fin 2))]"
      "fst (Track_init ''t'' [])"]
    add_appends_unchecked [of "[(''az'', PFloat (Fin 1))]" "fst (Track_init ''t'' [(''az'', NdArray [])])"]
  by (simp add: Track_init_attrs parameters_def sync_lengths_def seq_len_def appended_def)

text \<open>
  Claim C2 as stated fails: appending an azimuth alone to an empty track completes and
  leaves az with one element and timestamp, obstime and el with none.
\<close>

theorem add_unsynchronised_counterexample:
  "map_sum id sync_lengths (add (fst (Track_init ''t'' [])) [(''az'', PFloat (Fin 1))])
   = Inr [0, 0, 1, 0]"
  by (simp add: Track_init_attrs parameters_def sync_lengths_def seq_len_def)

section \<open>Track.rates\<close>

lemma map_err_as_float_PInt:
  "map_err as_float (map PInt ts) = Inr (map (\<lambda>i. Fin (of_int i)) ts)"
  by (induction ts) simp_all

lemma map_err_as_float_PFloat: "map_err as_float (map PFloat xs) = Inr xs"
  by (induction xs) simp_all

lemma length_np_diff: "length (np_diff xs) = length xs - 1"
  by (induction xs rule: np_diff.induct) simp_all

lemma nth_np_diff: "Suc i < length xs \<Longrightarrow> np_diff xs ! i = fl_sub (xs ! Suc i) (xs ! i)"
proof (induction xs arbitrary: i rule: np_diff.induct)
  case (1 x y zs)
  then show ?case by (cases i) simp_all
qed simp_all

lemma np_divide_same_length:
  "length xs = length ys \<Longrightarrow> np_divide xs ys = Inr (map (\<lambda>(x, y). fl_div x y) (zip xs ys))"
  by (simp add: np_divide_def)

lemma fl_div_zero_not_finite: "\<not> is_finite (fl_div x (Fin 0))"
  by (cases x) simp_all

lemma fl_sub_Fin: "fl_sub (Fin a) (Fin b) = Fin (a - b)"
  by (simp add: fl_sub_def)

lemma rate_list:
  assumes "length xs = length ts"
  shows "np_divide (np_diff xs)
           (map (\<lambda>d. fl_div d (Fin (10 ^ 9))) (np_diff (map (\<lambda>i. Fin (of_int i)) ts)))
         = Inr (map (rate_entry xs ts) [0..<length ts - 1])"
proof -
  let ?dt = "map (\<lambda>d. fl_div d (Fin (10 ^ 9))) (np_diff (map (\<lambda>i. Fin (of_int i)) ts))"
  have len: "length (np_diff xs) = length ?dt"
    using assms by (simp add: length_np_diff)
  have "map (\<lambda>(x, y). fl_div x y) (zip (np_diff xs) ?dt) = map (rate_entry xs ts) [0..<length ts - 1]"
  proof (rule nth_equalityI)
    show "length (map (\<lambda>(x, y). fl_div x y) (zip (np_diff xs) ?dt))
        = length (map (rate_entry xs ts) [0..<length ts - 1])"
      using assms by (simp add: length_np_diff)
  next
    fix i
    assume "i < length (map (\<lambda>(x, y). fl_div x y) (zip (np_diff xs) ?dt))"
    then have i: "Suc i < length ts" using assms by (simp add: length_np_diff)
    then have "Suc i < length xs" using assms by simp
    with i show "map (\<lambda>(x, y). fl_div x y) (zip (np_diff xs) ?dt) ! i
        = map (rate_entry xs ts) [0..<length ts - 1] ! i"
      using assms
      by (simp add: length_np_diff nth_np_diff rate_entry_def fl_sub_Fin)
  qed
  with len show ?thesis by (simp add: np_divide_same_length)
qed

lemma rates_value:
  assumes "attrs t ''timestamp'' = Some tsv" "elems tsv = map PInt ts"
    and "attrs t ''az'' = Some azv" "elems azv = map PFloat az"
    and "attrs t ''el'' = Some elv" "elems elv = map PFloat el"
    and "length az = length ts" "length el = length ts"
  shows "rates t = Inr (t\<lparr>attrs := (attrs t)
            (''dazdt'' \<mapsto> NdArray (map PFloat (map (rate_entry az ts) [0..<length ts - 1])),
             ''deldt'' \<mapsto> NdArray (map PFloat (map (rate_entry el ts) [0..<length ts - 1])))\<rparr>)"
proof -
  have ts: "get_floats t ''timestamp'' = Inr (map (\<lambda>i. Fin (of_int i)) ts)"
    using assms(1,2) by (simp add: get_floats_def get_attr_def map_err_as_float_PInt)
  have az: "get_floats t ''az'' = Inr az"
    using assms(3,4) by (simp add: get_floats_def get_attr_def map_err_as_float_PFloat)
  have el: "get_floats t ''el'' = Inr el"
    using assms(5,6) by (simp add: get_floats_def get_attr_def map_err_as_float_PFloat)
  show ?thesis
    unfolding rates_def
    by (simp only: ts az el Let_def sum.case rate_list [OF assms(7)] rate_list [OF assms(8)])
qed

text \<open>
  Claim C9. For a track whose timestamp holds integers and whose az and el hold floats,
  all of one length \<open>n\<close> (any \<open>n\<close>, in particular \<open>n \<ge> 2\<close>),
  \<^verbatim>\<open>rates\<close> returns without raising and stores \<open>dazdt\<close> and \<open>deldt\<close> of length
  \<open>n - 1\<close>; entry \<open>i\<close> is the difference of the consecutive values divided by the
  difference of the timestamps taken from nanoseconds to seconds; where two consecutive
  timestamps are equal the entry is not finite (an infinity or NaN); where they differ
  and the finite azimuth does not change the entry is zero.
\<close>

theorem rates_consecutive_differences:
  assumes "attrs t ''timestamp'' = Some tsv" "elems tsv = map PInt ts"
    and "attrs t ''az'' = Some azv" "elems azv = map PFloat az"
    and "attrs t ''el'' = Some elv" "elems elv = map PFloat el"
    and "length az = length ts" "length el = length ts"
  shows "\<exists>dazdt deldt.
      rates t = Inr (t\<lparr>attrs := (attrs t)(''dazdt'' \<mapsto> NdArray (map PFloat dazdt),
                                         ''deldt'' \<mapsto> NdArray (map PFloat deldt))\<rparr>) \<and>
      length dazdt = length ts - 1 \<and> length deldt = length ts - 1 \<and>
      (\<forall>i < length ts - 1.
         dazdt ! i = fl_div (fl_sub (az ! Suc i) (az ! i))
                       (Fin (of_int (ts ! Suc i - ts ! i) / 10 ^ 9)) \<and>
         deldt ! i = fl_div (fl_sub (el ! Suc i) (el ! i))
                       (Fin (of_int (ts ! Suc i - ts ! i) / 10 ^ 9)) \<and>
         (ts ! Suc i = ts ! i \<longrightarrow> \<not> is_finite (dazdt ! i) \<and> \<not> is_finite (deldt ! i)) \<and>
         (ts ! Suc i \<noteq> ts ! i \<and> is_finite (az ! i) \<and> az ! Suc i = az ! i \<longrightarrow> dazdt ! i = Fin 0))"
proof -
  let ?da = "map (rate_entry az ts) [0..<length ts - 1]"
  let ?de = "map (rate_entry el ts) [0..<length ts - 1]"
  have "rates t = Inr (t\<lparr>attrs := (attrs t)(''dazdt'' \<mapsto> NdArray (map PFloat ?da),
                                         ''deldt'' \<mapsto> NdArray (map PFloat ?de))\<rparr>)"
    using assms by (rule rates_value)
  moreover have "length ?da = length ts - 1" "length ?de = length ts - 1" by simp_all
  moreover have "\<forall>i < length ts - 1.
         ?da ! i = fl_div (fl_sub (az ! Suc i) (az ! i))
                       (Fin (of_int (ts ! Suc i - ts ! i) / 10 ^ 9)) \<and>
         ?de ! i = fl_div (fl_sub (el ! Suc i) (el ! i))
                       (Fin (of_int (ts ! Suc i - ts ! i) / 10 ^ 9)) \<and>
         (ts ! Suc i = ts ! i \<longrightarrow> \<not> is_finite (?da ! i) \<and> \<not> is_finite (?de ! i)) \<and>
         (ts ! Suc i \<noteq> ts ! i \<and> is_finite (az ! i) \<and> az ! Suc i = az ! i \<longrightarrow> ?da ! i = Fin 0)"
  proof (intro allI impI)
    fix i assume i: "i < length ts - 1"
    have z: "ts ! Suc i \<noteq> ts ! i \<Longrightarrow> is_finite (az ! i) \<Longrightarrow> az ! Suc i = az ! i
        \<Longrightarrow> rate_entry az ts i = Fin 0"
      by (cases "az ! i") (simp_all add: rate_entry_def fl_sub_Fin)
    show "?da ! i = fl_div (fl_sub (az ! Suc i) (az ! i))
                       (Fin (of_int (ts ! Suc i - ts ! i) / 10 ^ 9)) \<and>
         ?de ! i = fl_div (fl_sub (el ! Suc i) (el ! i))
                       (Fin (of_int (ts ! Suc i - ts ! i) / 10 ^ 9)) \<and>
         (ts ! Suc i = ts ! i \<longrightarrow> \<not> is_finite (?da ! i) \<and> \<not> is_finite (?de ! i)) \<and>
         (ts ! Suc i \<noteq> ts ! i \<and> is_finite (az ! i) \<and> az ! Suc i = az ! i \<longrightarrow> ?da ! i = Fin 0)"
      using i z by (auto simp: rate_entry_def fl_div_zero_not_finite)
  qed
  ultimately show ?thesis by blast
qed


theorem rates_consecutive_differences_witness:
  "map_sum id (\<lambda>t. (attrs t ''dazdt'', attrs t ''deldt''))
     (rates \<lparr>name = ''t'',
             attrs = [''timestamp'' \<mapsto> NdArray [PInt 0, PInt 1000000000, PInt 1000000000, PInt 1000000000],
                      ''az'' \<mapsto> PyList [PFloat (Fin 10), PFloat (Fin 10), PFloat (Fin 12), PFloat (Fin 12)],
                      ''el'' \<mapsto> PyList [PFloat (Fin 40), PFloat (Fin 41), PFloat (Fin 40), PFloat (Fin 40)]]\<rparr>)
   = Inr (Some (NdArray [PFloat (Fin 0), PFloat PInf, PFloat NaN]),
          Some (NdArray [PFloat (Fin 1), PFloat NInf, PFloat NaN]))"
  using rates_consecutive_differences [of
      "\<lparr>name = ''t'',
        attrs = [''timestamp'' \<mapsto> NdArray [PInt 0, PInt 1000000000, PInt 1000000000, PInt 1000000000],
                 ''az'' \<mapsto> PyList [PFloat (Fin 10), PFloat (Fin 10), PFloat (Fin 12), PFloat (Fin 12)],
                 ''el'' \<mapsto> PyList [PFloat (Fin 40), PFloat (Fin 41), PFloat (Fin 40), PFloat (Fin 40)]]\<rparr>"
      "NdArray [PInt 0, PInt 1000000000, PInt 1000000000, PInt 1000000000]"
      "[0, 1000000000, 1000000000, 1000000000]"
      "PyList [PFloat (Fin 10), PFloat (Fin 10), PFloat (Fin 12), PFloat (Fin 12)]"
      "[Fin 10, Fin 10, Fin 12, Fin 12]"
      "PyList [PFloat (Fin 40), PFloat (Fin 41), PFloat (Fin 40), PFloat (Fin 40)]"
      "[Fin 40, Fin 41, Fin 40, Fin 40]"]
  by (simp add: rates_def get_floats_def get_attr_def np_divide_def fl_sub_def)

end
